theory Spec2Isabelle
  imports Main "HOL-Library.Sublist"
begin

section \<open>Python values\<close>

text \<open>
  \<^verbatim>\<open>pelicanconf.py\<close> is a module of assignments of literals to upper-case names. The
  literals are \<^verbatim>\<open>None\<close>, integers, strings, tuples, lists and dictionaries.
\<close>

datatype pyval =
    PNone
  | PInt int
  | PStr string
  | PTuple "pyval list"
  | PList "pyval list"
  | PDict "(pyval \<times> pyval) list"

datatype py_error =
    KeyError string
  | IndexError
  | ValueError
  | Unmodelled

section \<open>The settings, in the order of the source\<close>

definition AUTHOR :: string where
  "AUTHOR = ''Faisal Khan''"

definition SITENAME :: string where
  "SITENAME = ''Faisal's Notes''"

definition TAGLINE :: string where
  "TAGLINE = ''Data | Code | Visualization''"

definition SITEURL :: string where
  "SITEURL = ''http://faisalnotes.com''"

definition PATH :: string where
  "PATH = ''content''"

definition TIMEZONE :: string where
  "TIMEZONE = ''America/Chicago''"

definition DEFAULT_LANG :: string where
  "DEFAULT_LANG = ''en''"

text \<open>
  The source's literal is not a raw string, and \<^verbatim>\<open>\d\<close> is no escape sequence of Python:
  the backslash stays in the string. It is written \<open>CHR 0x5C\<close> here.
\<close>

definition FILENAME_METADATA :: string where
  "FILENAME_METADATA =
     ''(?P<date>'' @ CHR 0x5C # ''d{4}-'' @ CHR 0x5C # ''d{2}-'' @ CHR 0x5C # ''d{2})-(?P<slug>.*)''"

definition FEED_ALL_ATOM :: pyval where
  "FEED_ALL_ATOM = PNone"

definition CATEGORY_FEED_ATOM :: pyval where
  "CATEGORY_FEED_ATOM = PNone"

definition TRANSLATION_FEED_ATOM :: pyval where
  "TRANSLATION_FEED_ATOM = PNone"

definition AUTHOR_FEED_ATOM :: pyval where
  "AUTHOR_FEED_ATOM = PNone"

definition AUTHOR_FEED_RSS :: pyval where
  "AUTHOR_FEED_RSS = PNone"

definition THEME :: string where
  "THEME = ''themes/pure-tech''"

definition STATIC_PATHS :: "string list" where
  "STATIC_PATHS = [''images'', ''extra/CNAME'']"

text \<open>A dictionary literal is an association list, in the order of the literal.\<close>

definition EXTRA_PATH_METADATA :: "(string \<times> (string \<times> string) list) list" where
  "EXTRA_PATH_METADATA =
     [(''images/favicon.png'', [(''path'', ''favicon.png'')]),
      (''extra/CNAME'', [(''path'', ''CNAME'')])]"

definition DATE_FORMATS :: "(string \<times> string) list" where
  "DATE_FORMATS = [(''en'', ''%Y-%m-%d'')]"

definition SITESUBTITLES :: "string list" where
  "SITESUBTITLES = [''Faisal's Notes'', '''']"

definition LINKS :: "pyval list" where
  "LINKS = []"

definition SOCIAL :: "pyval list" where
  "SOCIAL = []"

definition DEFAULT_PAGINATION :: int where
  "DEFAULT_PAGINATION = 5"

text \<open>Each entry is (page index of the rule, URL template, save-path template).\<close>

definition PAGINATION_PATTERNS :: "(int \<times> string \<times> string) list" where
  "PAGINATION_PATTERNS =
     [(1, ''{base_name}/'', ''{base_name}/index.html''),
      (2, ''{base_name}/page/{number}/'', ''{base_name}/page/{number}/index.html'')]"

definition PLUGIN_PATHS :: "string list" where
  "PLUGIN_PATHS = [''pelican-plugins'', ''plugins'']"

definition DIRECT_TEMPLATES :: "string list" where
  "DIRECT_TEMPLATES = [''index'', ''archives'']"

definition ARCHIVES_SAVE_AS :: string where
  "ARCHIVES_SAVE_AS = ''archives/index.html''"

definition ARTICLE_URL :: string where
  "ARTICLE_URL = ''{slug}/''"

definition ARTICLE_SAVE_AS :: string where
  "ARTICLE_SAVE_AS = ''{slug}/index.html''"

definition PAGE_URL :: string where
  "PAGE_URL = ''{slug}/''"

definition PAGE_SAVE_AS :: string where
  "PAGE_SAVE_AS = ''{slug}/index.html''"

definition TAG_URL :: string where
  "TAG_URL = ''tag/{slug}/''"

definition TAG_SAVE_AS :: string where
  "TAG_SAVE_AS = ''tag/{slug}/index.html''"

definition TAGS_SAVE_AS :: string where
  "TAGS_SAVE_AS = ''''"

definition AUTHOR_URL :: string where
  "AUTHOR_URL = ''''"

definition AUTHOR_SAVE_AS :: string where
  "AUTHOR_SAVE_AS = ''''"

definition CATEGORY_URL :: string where
  "CATEGORY_URL = ''''"

definition CATEGORY_SAVE_AS :: string where
  "CATEGORY_SAVE_AS = ''''"

subsection \<open>The module as a namespace\<close>

text \<open>
  The module's upper-case names with their values, in the order of the assignments: what a
  reader of the settings sees. No name is assigned twice (\<open>pelicanconf_distinct\<close>), so a
  lookup finds the one assignment of a name. The last line of the source, an assignment to
  \<^verbatim>\<open>RELATIVE_URLS\<close>, is a comment and defines nothing.
\<close>

definition pelicanconf :: "(string \<times> pyval) list" where
  "pelicanconf =
     [(''AUTHOR'', PStr AUTHOR),
      (''SITENAME'', PStr SITENAME),
      (''TAGLINE'', PStr TAGLINE),
      (''SITEURL'', PStr SITEURL),
      (''PATH'', PStr PATH),
      (''TIMEZONE'', PStr TIMEZONE),
      (''DEFAULT_LANG'', PStr DEFAULT_LANG),
      (''FILENAME_METADATA'', PStr FILENAME_METADATA),
      (''FEED_ALL_ATOM'', FEED_ALL_ATOM),
      (''CATEGORY_FEED_ATOM'', CATEGORY_FEED_ATOM),
      (''TRANSLATION_FEED_ATOM'', TRANSLATION_FEED_ATOM),
      (''AUTHOR_FEED_ATOM'', AUTHOR_FEED_ATOM),
      (''AUTHOR_FEED_RSS'', AUTHOR_FEED_RSS),
      (''THEME'', PStr THEME),
      (''STATIC_PATHS'', PList (map PStr STATIC_PATHS)),
      (''EXTRA_PATH_METADATA'',
         PDict (map (\<lambda>(k, d). (PStr k, PDict (map (\<lambda>(a, b). (PStr a, PStr b)) d)))
           EXTRA_PATH_METADATA)),
      (''DATE_FORMATS'', PDict (map (\<lambda>(k, v). (PStr k, PStr v)) DATE_FORMATS)),
      (''SITESUBTITLES'', PTuple (map PStr SITESUBTITLES)),
      (''LINKS'', PTuple LINKS),
      (''SOCIAL'', PTuple SOCIAL),
      (''DEFAULT_PAGINATION'', PInt DEFAULT_PAGINATION),
      (''PAGINATION_PATTERNS'',
         PTuple (map (\<lambda>(m, u, s). PTuple [PInt m, PStr u, PStr s]) PAGINATION_PATTERNS)),
      (''PLUGIN_PATHS'', PList (map PStr PLUGIN_PATHS)),
      (''DIRECT_TEMPLATES'', PTuple (map PStr DIRECT_TEMPLATES)),
      (''ARCHIVES_SAVE_AS'', PStr ARCHIVES_SAVE_AS),
      (''ARTICLE_URL'', PStr ARTICLE_URL),
      (''ARTICLE_SAVE_AS'', PStr ARTICLE_SAVE_AS),
      (''PAGE_URL'', PStr PAGE_URL),
      (''PAGE_SAVE_AS'', PStr PAGE_SAVE_AS),
      (''TAG_URL'', PStr TAG_URL),
      (''TAG_SAVE_AS'', PStr TAG_SAVE_AS),
      (''TAGS_SAVE_AS'', PStr TAGS_SAVE_AS),
      (''AUTHOR_URL'', PStr AUTHOR_URL),
      (''AUTHOR_SAVE_AS'', PStr AUTHOR_SAVE_AS),
      (''CATEGORY_URL'', PStr CATEGORY_URL),
      (''CATEGORY_SAVE_AS'', PStr CATEGORY_SAVE_AS)]"

text \<open>A setting that holds a string, read by name; \<open>None\<close> when the module does not
  define the name or its value is no string.\<close>

definition str_setting :: "string \<Rightarrow> string option" where
  "str_setting name =
     (case map_of pelicanconf name of Some (PStr s) \<Rightarrow> Some s | _ \<Rightarrow> None)"

section \<open>Substituting metadata into a template\<close>

text \<open>
  The templates are format strings of Python: the generator calls \<^verbatim>\<open>template.format(**metadata)\<close>.
  The model reads a template from left to right, as \<^verbatim>\<open>str.format\<close> does: \<^verbatim>\<open>{{\<close> and \<^verbatim>\<open>}}\<close>
  are literal braces, \<^verbatim>\<open>{name}\<close> is a replacement field, a brace alone is a \<^verbatim>\<open>ValueError\<close>.
  A field that is more than a name (a conversion \<^verbatim>\<open>!r\<close>, a format specification \<^verbatim>\<open>:%Y\<close>,
  an attribute or an index, a nested field) is outside the model and reported as
  \<open>Unmodelled\<close>; no template of this configuration has one.
\<close>

datatype tok = Lit char | Field string | Bad py_error

fun tokenize :: "string \<Rightarrow> tok list"
  and field :: "string \<Rightarrow> string \<Rightarrow> tok list" where
  "tokenize [] = []"
| "tokenize (c # cs) =
     (if c = CHR ''{'' then
        (case cs of
           [] \<Rightarrow> [Bad ValueError]
         | d # ds \<Rightarrow> if d = CHR ''{'' then Lit c # tokenize ds else field [] cs)
      else if c = CHR ''}'' then
        (case cs of
           [] \<Rightarrow> [Bad ValueError]
         | d # ds \<Rightarrow> if d = CHR ''}'' then Lit c # tokenize ds else [Bad ValueError])
      else Lit c # tokenize cs)"
| "field name [] = [Bad ValueError]"
| "field name (c # cs) =
     (if c = CHR ''}'' then Field name # tokenize cs
      else if c \<in> set ''{!:.['' then [Bad Unmodelled]
      else field (name @ [c]) cs)"

text \<open>The names of the replacement fields of a template, in order.\<close>

fun tok_names :: "tok list \<Rightarrow> string list" where
  "tok_names [] = []"
| "tok_names (Field n # ts) = n # tok_names ts"
| "tok_names (t # ts) = tok_names ts"

definition field_names :: "string \<Rightarrow> string list" where
  "field_names t = tok_names (tokenize t)"

text \<open>\<^verbatim>\<open>str(n)\<close> of an integer: its decimal digits, after a minus sign when negative.\<close>

definition digit_char :: "nat \<Rightarrow> char" where
  "digit_char d = char_of (48 + d)"

function nat_digits :: "nat \<Rightarrow> string" where
  "nat_digits n = (if n < 10 then [digit_char n] else nat_digits (n div 10) @ [digit_char (n mod 10)])"
  by pat_completeness auto
termination
  by (relation "measure (\<lambda>n. n)") auto

declare nat_digits.simps [simp del]

definition str_int :: "int \<Rightarrow> string" where
  "str_int i = (if i < 0 then CHR ''-'' # nat_digits (nat (- i)) else nat_digits (nat i))"

text \<open>
  What a replacement field writes for a value: a string as it is, an integer in decimal,
  \<^verbatim>\<open>None\<close> as the word. The text of a tuple, list or dictionary is outside the model.
\<close>

fun py_str :: "pyval \<Rightarrow> string option" where
  "py_str PNone = Some ''None''"
| "py_str (PInt i) = Some (str_int i)"
| "py_str (PStr s) = Some s"
| "py_str _ = None"

text \<open>
  The metadata are keyword arguments only, so a field with an empty name or a number for a
  name (a positional argument) is an \<^verbatim>\<open>IndexError\<close>, and a name the metadata lack is a
  \<^verbatim>\<open>KeyError\<close>. The first error met from the left is the one raised.
\<close>

definition is_index :: "string \<Rightarrow> bool" where
  "is_index n = list_all (\<lambda>c. c \<in> set ''0123456789'') n"

fun render :: "(string \<rightharpoonup> pyval) \<Rightarrow> tok list \<Rightarrow> py_error + string" where
  "render ctx [] = Inr []"
| "render ctx (Lit c # ts) =
     (case render ctx ts of Inl e \<Rightarrow> Inl e | Inr s \<Rightarrow> Inr (c # s))"
| "render ctx (Field n # ts) =
     (if is_index n then Inl IndexError
      else case ctx n of
        None \<Rightarrow> Inl (KeyError n)
      | Some v \<Rightarrow>
          (case py_str v of
             None \<Rightarrow> Inl Unmodelled
           | Some r \<Rightarrow> (case render ctx ts of Inl e \<Rightarrow> Inl e | Inr s \<Rightarrow> Inr (r @ s))))"
| "render ctx (Bad e # ts) = Inl e"

definition format :: "string \<Rightarrow> (string \<rightharpoonup> pyval) \<Rightarrow> py_error + string" where
  "format t ctx = render ctx (tokenize t)"

text \<open>\<^verbatim>\<open>s.endswith('/')\<close>.\<close>

definition ends_with_slash :: "string \<Rightarrow> bool" where
  "ends_with_slash s = (case rev s of [] \<Rightarrow> False | c # _ \<Rightarrow> c = CHR ''/'')"

section \<open>Content kinds and their routing templates\<close>

datatype kind = Article | Page | Tag | Author | Category | ArchiveIndex

text \<open>
  The settings of a kind are named after it: \<^verbatim>\<open>ARTICLE_URL\<close> and \<^verbatim>\<open>ARTICLE_SAVE_AS\<close> for an
  article, and so on. The archive index is the direct template \<^verbatim>\<open>archives\<close>, whose setting
  in the source is \<^verbatim>\<open>ARCHIVES_SAVE_AS\<close>.
\<close>

fun kind_prefix :: "kind \<Rightarrow> string" where
  "kind_prefix Article = ''ARTICLE''"
| "kind_prefix Page = ''PAGE''"
| "kind_prefix Tag = ''TAG''"
| "kind_prefix Author = ''AUTHOR''"
| "kind_prefix Category = ''CATEGORY''"
| "kind_prefix ArchiveIndex = ''ARCHIVES''"

definition kinds :: "kind list" where
  "kinds = [Article, Page, Tag, Author, Category, ArchiveIndex]"

definition url_template :: "kind \<Rightarrow> string option" where
  "url_template k = str_setting (kind_prefix k @ ''_URL'')"

definition save_as_template :: "kind \<Rightarrow> string option" where
  "save_as_template k = str_setting (kind_prefix k @ ''_SAVE_AS'')"

text \<open>
  The pairs of a URL template and a save-path template of the configuration: those of the
  kinds that have both, then those of the pagination patterns.
\<close>

definition routing_pairs :: "(string \<times> string) list" where
  "routing_pairs =
     concat (map (\<lambda>k. case (url_template k, save_as_template k) of
                          (Some u, Some s) \<Rightarrow> [(u, s)]
                        | _ \<Rightarrow> []) kinds)
     @ map snd PAGINATION_PATTERNS"

section \<open>Relative paths\<close>

text \<open>
  A save path is joined to the output directory. It is absolute when it starts with the
  separator (\<^verbatim>\<open>posixpath.isabs\<close>). It escapes the output root when, walking its components
  from the root, a \<^verbatim>\<open>..\<close> is met at depth 0; an empty component and \<^verbatim>\<open>.\<close> stay in place.
\<close>

definition isabs :: "string \<Rightarrow> bool" where
  "isabs p = (case p of [] \<Rightarrow> False | c # _ \<Rightarrow> c = CHR ''/'')"

text \<open>\<^verbatim>\<open>p.split('/')\<close>.\<close>

fun split_sep :: "string \<Rightarrow> string list" where
  "split_sep [] = [[]]"
| "split_sep (c # cs) =
     (if c = CHR ''/'' then [] # split_sep cs
      else case split_sep cs of [] \<Rightarrow> [[c]] | w # ws \<Rightarrow> (c # w) # ws)"

fun escapes :: "nat \<Rightarrow> string list \<Rightarrow> bool" where
  "escapes d [] = False"
| "escapes d (c # cs) =
     (if c = ''..'' then (case d of 0 \<Rightarrow> True | Suc d' \<Rightarrow> escapes d' cs)
      else if c = [] \<or> c = ''.'' then escapes d cs
      else escapes (Suc d) cs)"

definition valid_relative_path :: "string \<Rightarrow> bool" where
  "valid_relative_path p = (\<not> isabs p \<and> \<not> escapes 0 (split_sep p))"

text \<open>A text that is one path component and not the parent directory.\<close>

definition safe_component :: "string \<Rightarrow> bool" where
  "safe_component r = (r \<noteq> [] \<and> CHR ''/'' \<notin> set r \<and> r \<noteq> ''..'')"

section \<open>Pagination patterns\<close>

text \<open>
  Modelled from the spec: the reading of the first number of an entry as a rule on the page
  index is the generator's, which is not in this repository. In the spec's words the entry
  with 1 is the rule "page index == 1" and the entry with 2 is the rule "page index \<ge> 2".
\<close>

definition rule_holds :: "int \<Rightarrow> int \<Rightarrow> bool" where
  "rule_holds m p = (if m = 1 then p = 1 else m \<le> p)"

text \<open>
  Modelled from the spec: the search of the table for a page index is the generator's,
  which is not in this repository. In the spec's words the table is ordered and the first
  entry whose rule holds wins.
\<close>

definition select_pattern :: "int \<Rightarrow> (int \<times> string \<times> string) option" where
  "select_pattern p = find (\<lambda>(m, u, s). rule_holds m p) PAGINATION_PATTERNS"

section \<open>Static paths and filename metadata\<close>

text \<open>A path is under a static path when it is that path or lies below it as a directory.\<close>

definition is_under :: "string \<Rightarrow> string \<Rightarrow> bool" where
  "is_under p k = (k = p \<or> prefix (p @ ''/'') k)"

text \<open>
  The named groups of a regular expression of Python, \<^verbatim>\<open>(?P<name>...)\<close>, in order. An
  escaped character and the characters of a class \<^verbatim>\<open>[...]\<close> open no group; in a class, a
  \<^verbatim>\<open>]\<close> that comes first (after \<^verbatim>\<open>^\<close> when negated) is a member and does not close it.
  A comment \<^verbatim>\<open>(?#...)\<close> runs to the first \<^verbatim>\<open>)\<close> that is not escaped and opens no group either.
  A pattern that the regular-expression compiler rejects, and a pattern that switches on
  the verbose mode by an inline flag, are outside the model.
\<close>

datatype re_state = Normal | ClassOpen | ClassNeg | ClassBody | Comment

fun scan_groups :: "re_state \<Rightarrow> string \<Rightarrow> string list" where
  "scan_groups st [] = []"
| "scan_groups st (c # cs) =
     (if c = CHR 0x5C then
        (case cs of
           [] \<Rightarrow> []
         | d # ds \<Rightarrow>
             scan_groups (if st = Normal \<or> st = Comment then st else ClassBody) ds)
      else case st of
        ClassOpen \<Rightarrow> scan_groups (if c = CHR ''^'' then ClassNeg else ClassBody) cs
      | ClassNeg \<Rightarrow> scan_groups ClassBody cs
      | ClassBody \<Rightarrow> scan_groups (if c = CHR '']'' then Normal else ClassBody) cs
      | Comment \<Rightarrow> scan_groups (if c = CHR '')'' then Normal else Comment) cs
      | Normal \<Rightarrow>
          if c = CHR ''['' then scan_groups ClassOpen cs
          else if prefix ''(?#'' (c # cs) then scan_groups Comment cs
          else if prefix ''(?P<'' (c # cs)
            then takeWhile (\<lambda>x. x \<noteq> CHR ''>'') (drop 3 cs) # scan_groups Normal cs
          else scan_groups Normal cs)"

definition named_groups :: "string \<Rightarrow> string list" where
  "named_groups p = scan_groups Normal p"

section \<open>Reading the settings\<close>

lemma pelicanconf_distinct: "distinct (map fst pelicanconf)"
  by (simp add: pelicanconf_def)

lemma url_template_eval:
  "url_template Article = Some ''{slug}/''"
  "url_template Page = Some ''{slug}/''"
  "url_template Tag = Some ''tag/{slug}/''"
  "url_template Author = Some ''''"
  "url_template Category = Some ''''"
  "url_template ArchiveIndex = None"
  by (simp_all add: url_template_def str_setting_def pelicanconf_def
      ARTICLE_URL_def PAGE_URL_def TAG_URL_def AUTHOR_URL_def CATEGORY_URL_def)

lemma save_as_template_eval:
  "save_as_template Article = Some ''{slug}/index.html''"
  "save_as_template Page = Some ''{slug}/index.html''"
  "save_as_template Tag = Some ''tag/{slug}/index.html''"
  "save_as_template Author = Some ''''"
  "save_as_template Category = Some ''''"
  "save_as_template ArchiveIndex = Some ''archives/index.html''"
  by (simp_all add: save_as_template_def str_setting_def pelicanconf_def
      ARTICLE_SAVE_AS_def PAGE_SAVE_AS_def TAG_SAVE_AS_def AUTHOR_SAVE_AS_def
      CATEGORY_SAVE_AS_def ARCHIVES_SAVE_AS_def)

section \<open>Templates of the configuration, substituted\<close>

lemma is_index_name [simp]:
  "\<not> is_index ''slug''" "\<not> is_index ''base_name''" "\<not> is_index ''number''"
  by (simp_all add: is_index_def)

lemma format_eval:
  assumes "ctx ''slug'' = Some v" and "py_str v = Some r"
  shows "format ''{slug}/'' ctx = Inr (r @ ''/'')"
    and "format ''{slug}/index.html'' ctx = Inr (r @ ''/index.html'')"
    and "format ''tag/{slug}/'' ctx = Inr (''tag/'' @ r @ ''/'')"
    and "format ''tag/{slug}/index.html'' ctx = Inr (''tag/'' @ r @ ''/index.html'')"
  using assms by (simp_all add: format_def)

lemma format_empty: "format '''' ctx = Inr ''''"
  by (simp add: format_def)

lemma ends_with_slash_snoc [simp]: "ends_with_slash (s @ ''/'')"
  by (simp add: ends_with_slash_def)

lemma ends_with_slash_Nil [simp]: "\<not> ends_with_slash []"
  by (simp add: ends_with_slash_def)

section \<open>URL and save path of a content kind\<close>

text \<open>
  C1. For every content kind that has both a URL template and a save-path template, and
  every metadata that give the slug a value, both templates are substituted without error,
  and the save path is the URL followed by \<^verbatim>\<open>index.html\<close> when the URL ends in \<^verbatim>\<open>/\<close>, the
  URL itself otherwise. The kinds concerned are article, page and tag, and also author and
  category, whose two templates are empty.
\<close>

theorem url_save_as_duality:
  assumes "url_template k = Some ut" and "save_as_template k = Some st"
    and "ctx ''slug'' = Some v" and "py_str v = Some r"
  shows "\<exists>u. format ut ctx = Inr u \<and>
    format st ctx = Inr (if ends_with_slash u then u @ ''index.html'' else u)"
proof -
  note fe = format_eval [of ctx v r, OF assms(3,4)]
  consider
      (slug) "ut = ''{slug}/''" "st = ''{slug}/index.html''"
    | (tag) "ut = ''tag/{slug}/''" "st = ''tag/{slug}/index.html''"
    | (empty) "ut = ''''" "st = ''''"
    using assms(1,2)
    by (cases k) (auto simp: url_template_eval save_as_template_eval)
  then show ?thesis
  proof cases
    case slug
    show ?thesis
      by (rule exI [of _ "r @ ''/''"]) (simp add: slug fe)
  next
    case tag
    have "ends_with_slash (''tag/'' @ r @ ''/'')"
      using ends_with_slash_snoc [of "''tag/'' @ r"] by simp
    then show ?thesis
      by (intro exI [of _ "''tag/'' @ r @ ''/''"]) (simp add: tag fe)
  next
    case empty
    then show ?thesis
      by (simp add: format_empty)
  qed
qed

theorem url_save_as_duality_witness:
  "url_template Tag = Some ''tag/{slug}/'' \<and>
   save_as_template Tag = Some ''tag/{slug}/index.html'' \<and>
   format ''tag/{slug}/'' [''slug'' \<mapsto> PStr ''python''] = Inr ''tag/python/'' \<and>
   ends_with_slash ''tag/python/'' \<and>
   format ''tag/{slug}/index.html'' [''slug'' \<mapsto> PStr ''python''] = Inr ''tag/python/index.html''"
proof -
  have u: "url_template Tag = Some ''tag/{slug}/''"
    by (simp add: url_template_eval)
  have s: "save_as_template Tag = Some ''tag/{slug}/index.html''"
    by (simp add: save_as_template_eval)
  have c: "[''slug'' \<mapsto> PStr ''python''] ''slug'' = Some (PStr ''python'')"
    by simp
  have p: "py_str (PStr ''python'') = Some ''python''"
    by simp
  have e: "ends_with_slash ''tag/python/''"
    by (simp add: ends_with_slash_def)
  have f: "format ''tag/{slug}/'' [''slug'' \<mapsto> PStr ''python''] = Inr ''tag/python/''"
    by (simp add: format_def)
  from url_save_as_duality [of Tag _ _ "[''slug'' \<mapsto> PStr ''python'']", OF u s c p] f e u s show ?thesis
    by simp
qed

section \<open>Pagination patterns, substituted\<close>

lemma pagination_lookup:
  "map_of PAGINATION_PATTERNS 1 = Some (''{base_name}/'', ''{base_name}/index.html'')"
  "map_of PAGINATION_PATTERNS 2 =
     Some (''{base_name}/page/{number}/'', ''{base_name}/page/{number}/index.html'')"
  by (simp_all add: PAGINATION_PATTERNS_def)

lemma format_page_one:
  assumes "ctx ''base_name'' = Some v" and "py_str v = Some b"
  shows "format ''{base_name}/'' ctx = Inr (b @ ''/'')"
    and "format ''{base_name}/index.html'' ctx = Inr (b @ ''/index.html'')"
  using assms by (simp_all add: format_def)

lemma format_page_n:
  assumes "ctx ''base_name'' = Some v" and "py_str v = Some b"
    and "ctx ''number'' = Some w" and "py_str w = Some n"
  shows "format ''{base_name}/page/{number}/'' ctx = Inr (b @ ''/page/'' @ n @ ''/'')"
    and "format ''{base_name}/page/{number}/index.html'' ctx =
           Inr (b @ ''/page/'' @ n @ ''/index.html'')"
  using assms by (simp_all add: format_def)

text \<open>
  C2. For every base name, the pattern of page index 1 gives the unpaginated URL and save
  path of that base: \<^verbatim>\<open><base>/\<close> and \<^verbatim>\<open><base>/index.html\<close>, whatever else the metadata hold.
\<close>

theorem page_one_is_canonical:
  assumes "ctx ''base_name'' = Some (PStr b)"
  shows "\<exists>ut st. map_of PAGINATION_PATTERNS 1 = Some (ut, st) \<and>
    format ut ctx = Inr (b @ ''/'') \<and> format st ctx = Inr (b @ ''/index.html'')"
  using format_page_one [of ctx "PStr b" b] assms
  by (simp add: pagination_lookup)

theorem page_one_is_canonical_witness:
  "[''base_name'' \<mapsto> PStr ''tag/python''] ''base_name'' = Some (PStr ''tag/python'') \<and>
   map_of PAGINATION_PATTERNS 1 = Some (''{base_name}/'', ''{base_name}/index.html'') \<and>
   format ''{base_name}/'' [''base_name'' \<mapsto> PStr ''tag/python''] = Inr ''tag/python/'' \<and>
   format ''{base_name}/index.html'' [''base_name'' \<mapsto> PStr ''tag/python'']
     = Inr ''tag/python/index.html''"
proof -
  have c: "[''base_name'' \<mapsto> PStr ''tag/python''] ''base_name'' = Some (PStr ''tag/python'')"
    by simp
  from page_one_is_canonical [of "[''base_name'' \<mapsto> PStr ''tag/python'']" "''tag/python''", OF c]
  show ?thesis
    by (simp add: pagination_lookup)
qed

text \<open>
  The same holds for each kind that has a slug in its templates: with the directory of
  the kind's save path as base name, the pattern of page index 1 gives the kind's own URL
  and save path.
\<close>

lemma page_one_agrees_with_kind:
  assumes "k \<in> {Article, Page, Tag}"
    and "ctx ''slug'' = Some v" and "py_str v = Some r"
    and "ctx' ''base_name'' = Some (PStr (case k of Tag \<Rightarrow> ''tag/'' @ r | _ \<Rightarrow> r))"
  shows "Some (format ''{base_name}/'' ctx') = map_option (\<lambda>t. format t ctx) (url_template k)"
    and "Some (format ''{base_name}/index.html'' ctx')
           = map_option (\<lambda>t. format t ctx) (save_as_template k)"
  using assms format_eval [of ctx v r]
    format_page_one [of ctx' "PStr (case k of Tag \<Rightarrow> ''tag/'' @ r | _ \<Rightarrow> r)"
      "case k of Tag \<Rightarrow> ''tag/'' @ r | _ \<Rightarrow> r"]
  by (auto simp: url_template_eval save_as_template_eval)

lemma sublist_middle: "sublist n (b @ p @ n @ s)"
  unfolding sublist_def by (rule exI [of _ "b @ p"], rule exI [of _ s]) simp

lemma str_int_literals:
  "str_int 2 = ''2''" "str_int 3 = ''3''" "str_int 4 = ''4''" "str_int 5 = ''5''"
  "str_int 6 = ''6''" "str_int 7 = ''7''" "str_int 8 = ''8''" "str_int 9 = ''9''"
  "str_int 10 = ''10''"
  by code_simp+

text \<open>The decimal text of an integer, on numbers of one and more digits and below zero.\<close>

lemma str_int_samples:
  "str_int 0 = ''0''" "str_int 11 = ''11''" "str_int 99 = ''99''" "str_int 100 = ''100''"
  "str_int 1234 = ''1234''" "str_int (- 1) = ''-1''" "str_int (- 10) = ''-10''"
  by code_simp+

lemma str_int_in_table:
  assumes "2 \<le> N" and "N \<le> 10"
  shows "(N, str_int N) \<in> set [(2, ''2''), (3, ''3''), (4, ''4''), (5, ''5''), (6, ''6''),
    (7, ''7''), (8, ''8''), (9, ''9''), (10, ''10'')]"
proof -
  from assms have "N = 2 \<or> N = 3 \<or> N = 4 \<or> N = 5 \<or> N = 6 \<or> N = 7 \<or> N = 8 \<or> N = 9 \<or> N = 10"
    by arith
  then show ?thesis
    by (elim disjE) (simp_all add: str_int_literals)
qed

text \<open>
  C4. For every page number N from 2 to 10 and every base name, the pattern of page index
  2 gives the URL \<^verbatim>\<open><base>/page/<d>/\<close> and the save path \<^verbatim>\<open><base>/page/<d>/index.html\<close>, where
  d is the decimal literal of N, given by the table; both contain d, and they are not the
  URL \<^verbatim>\<open><base>/\<close> and the save path \<^verbatim>\<open><base>/index.html\<close> that the pattern of page index 1 gives
  for the same metadata.
\<close>

theorem later_pages_carry_number:
  assumes "2 \<le> N" and "N \<le> 10"
    and "ctx ''base_name'' = Some (PStr b)" and "ctx ''number'' = Some (PInt N)"
  shows "\<exists>ut st ut1 st1 d u s u1 s1.
    map_of PAGINATION_PATTERNS 2 = Some (ut, st) \<and>
    map_of PAGINATION_PATTERNS 1 = Some (ut1, st1) \<and>
    (N, d) \<in> set [(2, ''2''), (3, ''3''), (4, ''4''), (5, ''5''), (6, ''6''),
      (7, ''7''), (8, ''8''), (9, ''9''), (10, ''10'')] \<and>
    u = b @ ''/page/'' @ d @ ''/'' \<and> s = b @ ''/page/'' @ d @ ''/index.html'' \<and>
    format ut ctx = Inr u \<and> format st ctx = Inr s \<and>
    sublist d u \<and> sublist d s \<and>
    u1 = b @ ''/'' \<and> s1 = b @ ''/index.html'' \<and>
    format ut1 ctx = Inr u1 \<and> format st1 ctx = Inr s1 \<and> u1 \<noteq> u \<and> s1 \<noteq> s"
proof -
  note f1 = format_page_one [of ctx "PStr b" b, OF assms(3)]
  note fn = format_page_n [of ctx "PStr b" b "PInt N" "str_int N", OF assms(3) _ assms(4)]
  have t: "(N, str_int N) \<in> set [(2, ''2''), (3, ''3''), (4, ''4''), (5, ''5''), (6, ''6''),
      (7, ''7''), (8, ''8''), (9, ''9''), (10, ''10'')]"
    using assms(1,2) by (rule str_int_in_table)
  have u: "format ''{base_name}/page/{number}/'' ctx = Inr (b @ ''/page/'' @ str_int N @ ''/'')"
    using fn(1) by simp
  have s: "format ''{base_name}/page/{number}/index.html'' ctx
      = Inr (b @ ''/page/'' @ str_int N @ ''/index.html'')"
    using fn(2) by simp
  have u1: "format ''{base_name}/'' ctx = Inr (b @ ''/'')"
    using f1(1) by simp
  have s1: "format ''{base_name}/index.html'' ctx = Inr (b @ ''/index.html'')"
    using f1(2) by simp
  have su: "sublist (str_int N) (b @ ''/page/'' @ str_int N @ ''/'')"
    and ss: "sublist (str_int N) (b @ ''/page/'' @ str_int N @ ''/index.html'')"
    by (rule sublist_middle)+
  have du: "b @ ''/'' \<noteq> b @ ''/page/'' @ str_int N @ ''/''"
    and ds: "b @ ''/index.html'' \<noteq> b @ ''/page/'' @ str_int N @ ''/index.html''"
    by simp_all
  from pagination_lookup t u s su ss u1 s1 du ds show ?thesis
    by blast
qed

theorem later_pages_carry_number_witness:
  "(2::int) \<le> 10 \<and> (10::int) \<le> 10 \<and>
   format ''{base_name}/page/{number}/'' [''base_name'' \<mapsto> PStr ''blog'', ''number'' \<mapsto> PInt 10]
     = Inr ''blog/page/10/'' \<and>
   format ''{base_name}/page/{number}/index.html''
       [''base_name'' \<mapsto> PStr ''blog'', ''number'' \<mapsto> PInt 10]
     = Inr ''blog/page/10/index.html'' \<and>
   sublist ''10'' ''blog/page/10/'' \<and>
   sublist ''10'' ''blog/page/10/index.html'' \<and>
   format ''{base_name}/'' [''base_name'' \<mapsto> PStr ''blog'', ''number'' \<mapsto> PInt 10]
     = Inr ''blog/'' \<and>
   format ''{base_name}/index.html'' [''base_name'' \<mapsto> PStr ''blog'', ''number'' \<mapsto> PInt 10]
     = Inr ''blog/index.html'' \<and>
   ''blog/'' \<noteq> ''blog/page/10/'' \<and> ''blog/index.html'' \<noteq> ''blog/page/10/index.html''"
proof -
  let ?ctx = "[''base_name'' \<mapsto> PStr ''blog'', ''number'' \<mapsto> PInt 10]"
  have l: "(2::int) \<le> 10" and h: "(10::int) \<le> 10" by simp_all
  have b: "?ctx ''base_name'' = Some (PStr ''blog'')" by simp
  have n: "?ctx ''number'' = Some (PInt 10)" by simp
  from later_pages_carry_number [of 10 ?ctx "''blog''", OF l h b n]
  show ?thesis
    by (simp add: pagination_lookup)
qed

section \<open>The pagination table\<close>

lemma field_names_pagination:
  "field_names ''{base_name}/'' = [''base_name'']"
  "field_names ''{base_name}/index.html'' = [''base_name'']"
  "field_names ''{base_name}/page/{number}/'' = [''base_name'', ''number'']"
  "field_names ''{base_name}/page/{number}/index.html'' = [''base_name'', ''number'']"
  by (simp_all add: field_names_def)

lemma field_names_slug:
  "field_names ''{slug}/'' = [''slug'']"
  "field_names ''{slug}/index.html'' = [''slug'']"
  "field_names ''tag/{slug}/'' = [''slug'']"
  "field_names ''tag/{slug}/index.html'' = [''slug'']"
  "field_names '''' = []"
  by (simp_all add: field_names_def)

text \<open>
  C3. The table has exactly two entries. Searched in order for the first entry whose rule
  holds, it gives for page index 1 the first entry, whose URL and save path are the
  unpaginated ones and have no \<^verbatim>\<open>number\<close> field, and for every page index from 2 on the
  second entry, whose URL and save path both have the \<^verbatim>\<open>number\<close> field; a page index below 1
  matches no entry.
\<close>

theorem pagination_rule_selection:
  "length PAGINATION_PATTERNS = 2 \<and>
   select_pattern p =
     (if p = 1 then Some (1, ''{base_name}/'', ''{base_name}/index.html'')
      else if 2 \<le> p then
        Some (2, ''{base_name}/page/{number}/'', ''{base_name}/page/{number}/index.html'')
      else None) \<and>
   ''number'' \<notin> set (field_names ''{base_name}/'') \<and>
   ''number'' \<notin> set (field_names ''{base_name}/index.html'') \<and>
   ''number'' \<in> set (field_names ''{base_name}/page/{number}/'') \<and>
   ''number'' \<in> set (field_names ''{base_name}/page/{number}/index.html'')"
  by (simp add: PAGINATION_PATTERNS_def select_pattern_def rule_holds_def field_names_pagination)

text \<open>The search is sensitive to the order: no entry before the selected one holds.\<close>

lemma select_pattern_first_match:
  "select_pattern p = Some e \<longleftrightarrow>
     (\<exists>i < length PAGINATION_PATTERNS. PAGINATION_PATTERNS ! i = e \<and> rule_holds (fst e) p \<and>
        (\<forall>j < i. \<not> rule_holds (fst (PAGINATION_PATTERNS ! j)) p))"
  unfolding select_pattern_def find_Some_iff by (auto simp: case_prod_beta)

text \<open>
  C8. Each entry of the pagination table has a URL template that ends in \<^verbatim>\<open>/\<close> and a
  save-path template that is the URL template followed by \<^verbatim>\<open>index.html\<close>.
\<close>

theorem pagination_patterns_duality:
  "list_all (\<lambda>(m, u, s). ends_with_slash u \<and> s = u @ ''index.html'') PAGINATION_PATTERNS"
  by (simp add: PAGINATION_PATTERNS_def ends_with_slash_def)

section \<open>Feeds, kinds, languages and static paths\<close>

text \<open>
  C5. The module assigns \<^verbatim>\<open>None\<close> to each of the five feed settings, and the value of none
  of them equals the empty string.
\<close>

theorem feeds_disabled:
  "map (map_of pelicanconf)
     [''FEED_ALL_ATOM'', ''CATEGORY_FEED_ATOM'', ''TRANSLATION_FEED_ATOM'',
      ''AUTHOR_FEED_ATOM'', ''AUTHOR_FEED_RSS'']
     = [Some PNone, Some PNone, Some PNone, Some PNone, Some PNone] \<and>
   FEED_ALL_ATOM \<noteq> PStr '''' \<and> CATEGORY_FEED_ATOM \<noteq> PStr '''' \<and>
   TRANSLATION_FEED_ATOM \<noteq> PStr '''' \<and> AUTHOR_FEED_ATOM \<noteq> PStr '''' \<and>
   AUTHOR_FEED_RSS \<noteq> PStr ''''"
  by (simp add: pelicanconf_def FEED_ALL_ATOM_def CATEGORY_FEED_ATOM_def
      TRANSLATION_FEED_ATOM_def AUTHOR_FEED_ATOM_def AUTHOR_FEED_RSS_def)

text \<open>
  C7, as the claim states it, fails at the archive index: it is one of the six kinds, and
  the module assigns no \<^verbatim>\<open>ARCHIVES_URL\<close>, so the kind has no URL template.
\<close>

theorem archive_index_has_no_url_template:
  "ArchiveIndex \<in> set kinds \<and> map_of pelicanconf ''ARCHIVES_URL'' = None \<and>
   url_template ArchiveIndex = None"
  by (simp add: kinds_def url_template_eval pelicanconf_def)

text \<open>
  C7, amended. Article, page, tag, author and category each have a URL template and a
  save-path template (both empty for author and category). The archive index has a
  save-path template only: the names of the module that end in \<^verbatim>\<open>_URL\<close> are those of the
  five other kinds.
\<close>

theorem routing_templates_defined:
  "map url_template kinds =
     [Some ''{slug}/'', Some ''{slug}/'', Some ''tag/{slug}/'', Some '''', Some '''', None] \<and>
   map save_as_template kinds =
     [Some ''{slug}/index.html'', Some ''{slug}/index.html'', Some ''tag/{slug}/index.html'',
      Some '''', Some '''', Some ''archives/index.html''] \<and>
   filter (suffix ''_URL'') (map fst pelicanconf) =
     [''ARTICLE_URL'', ''PAGE_URL'', ''TAG_URL'', ''AUTHOR_URL'', ''CATEGORY_URL'']"
  by (simp add: kinds_def url_template_eval save_as_template_eval pelicanconf_def suffix_def)

text \<open>
  C9. \<^verbatim>\<open>DATE_FORMATS\<close> has an entry for the default language.
\<close>

theorem default_lang_has_date_format:
  "map_of DATE_FORMATS DEFAULT_LANG = Some ''%Y-%m-%d''"
  by (simp add: DATE_FORMATS_def DEFAULT_LANG_def)

lemma named_groups_FILENAME_METADATA:
  "named_groups FILENAME_METADATA = [''date'', ''slug'']"
  by (simp add: named_groups_def FILENAME_METADATA_def)

text \<open>
  C10. Each key of \<^verbatim>\<open>EXTRA_PATH_METADATA\<close> is a static path or lies under one. The named
  groups of \<^verbatim>\<open>FILENAME_METADATA\<close> are \<^verbatim>\<open>date\<close> and \<^verbatim>\<open>slug\<close>, and the only field of the URL and
  save-path templates of article, page and tag is \<^verbatim>\<open>slug\<close>, which is one of those groups.
\<close>

theorem static_and_filename_metadata_cover:
  "list_all (\<lambda>k. list_ex (\<lambda>p. is_under p k) STATIC_PATHS) (map fst EXTRA_PATH_METADATA) \<and>
   map fst EXTRA_PATH_METADATA = [''images/favicon.png'', ''extra/CNAME''] \<and>
   named_groups FILENAME_METADATA = [''date'', ''slug''] \<and>
   list_all (\<lambda>t. field_names t = [''slug''] \<and>
               set (field_names t) \<subseteq> set (named_groups FILENAME_METADATA))
     [ARTICLE_URL, ARTICLE_SAVE_AS, PAGE_URL, PAGE_SAVE_AS, TAG_URL, TAG_SAVE_AS]"
  by (simp add: named_groups_FILENAME_METADATA EXTRA_PATH_METADATA_def STATIC_PATHS_def
      is_under_def field_names_slug ARTICLE_URL_def ARTICLE_SAVE_AS_def PAGE_URL_def
      PAGE_SAVE_AS_def TAG_URL_def TAG_SAVE_AS_def)

section \<open>Save paths stay under the output root\<close>

lemma routing_pairs_eval:
  "routing_pairs =
     [(''{slug}/'', ''{slug}/index.html''),
      (''{slug}/'', ''{slug}/index.html''),
      (''tag/{slug}/'', ''tag/{slug}/index.html''),
      ('''', ''''),
      ('''', ''''),
      (''{base_name}/'', ''{base_name}/index.html''),
      (''{base_name}/page/{number}/'', ''{base_name}/page/{number}/index.html'')]"
  by (simp add: routing_pairs_def kinds_def url_template_eval save_as_template_eval
      PAGINATION_PATTERNS_def)

lemma split_sep_component:
  "CHR ''/'' \<notin> set r \<Longrightarrow> split_sep (r @ CHR ''/'' # rest) = r # split_sep rest"
  by (induction r) auto

lemma split_sep_no_sep: "CHR ''/'' \<notin> set r \<Longrightarrow> split_sep r = [r]"
  by (induction r) auto

lemma isabs_safe: "safe_component r \<Longrightarrow> \<not> isabs (r @ s)"
  by (cases r) (auto simp: safe_component_def isabs_def)

lemma no_parent_no_escape: "''..'' \<notin> set cs \<Longrightarrow> \<not> escapes d cs"
  by (induction cs arbitrary: d) auto

lemma valid_components:
  assumes "\<not> isabs p" and "split_sep p = cs" and "''..'' \<notin> set cs"
  shows "valid_relative_path p"
  using assms no_parent_no_escape [of cs 0] by (simp add: valid_relative_path_def)

lemma valid_empty: "valid_relative_path ''''"
  by (simp add: valid_relative_path_def isabs_def)

lemma split_sep_index: "split_sep ''index.html'' = [''index.html'']"
  by (rule split_sep_no_sep) simp

lemma split_sep_page: "split_sep (''page/'' @ rest) = ''page'' # split_sep rest"
  using split_sep_component [of "''page''" rest] by simp

lemma split_sep_tag: "split_sep (''tag/'' @ rest) = ''tag'' # split_sep rest"
  using split_sep_component [of "''tag''" rest] by simp

lemma valid_slug_index:
  assumes "safe_component r"
  shows "valid_relative_path (r @ ''/index.html'')"
proof (rule valid_components)
  show "\<not> isabs (r @ ''/index.html'')"
    using assms by (rule isabs_safe)
  have "split_sep (r @ CHR ''/'' # ''index.html'') = r # split_sep ''index.html''"
    using assms by (intro split_sep_component) (simp add: safe_component_def)
  then show "split_sep (r @ ''/index.html'') = [r, ''index.html'']"
    by (simp only: split_sep_index)
  show "''..'' \<notin> set [r, ''index.html'']"
    using assms by (auto simp: safe_component_def)
qed

lemma valid_tag_index:
  assumes "safe_component r"
  shows "valid_relative_path (''tag/'' @ r @ ''/index.html'')"
proof (rule valid_components)
  show "\<not> isabs (''tag/'' @ r @ ''/index.html'')"
    by (simp add: isabs_def)
  have "split_sep (r @ CHR ''/'' # ''index.html'') = r # split_sep ''index.html''"
    using assms by (intro split_sep_component) (simp add: safe_component_def)
  then show "split_sep (''tag/'' @ r @ ''/index.html'') = [''tag'', r, ''index.html'']"
    by (simp only: split_sep_tag split_sep_index)
  show "''..'' \<notin> set [''tag'', r, ''index.html'']"
    using assms by (auto simp: safe_component_def)
qed

lemma valid_page_index:
  assumes "safe_component b" and "safe_component n"
  shows "valid_relative_path (b @ ''/page/'' @ n @ ''/index.html'')"
proof (rule valid_components)
  show "\<not> isabs (b @ ''/page/'' @ n @ ''/index.html'')"
    using assms(1) by (rule isabs_safe)
  have 1: "split_sep (n @ CHR ''/'' # ''index.html'') = n # split_sep ''index.html''"
    using assms(2) by (intro split_sep_component) (simp add: safe_component_def)
  have 2: "split_sep (b @ CHR ''/'' # (''page/'' @ n @ CHR ''/'' # ''index.html''))
      = b # split_sep (''page/'' @ n @ CHR ''/'' # ''index.html'')"
    using assms(1) by (intro split_sep_component) (simp add: safe_component_def)
  have "b @ ''/page/'' @ n @ ''/index.html''
      = b @ CHR ''/'' # (''page/'' @ n @ CHR ''/'' # ''index.html'')"
    by simp
  then show "split_sep (b @ ''/page/'' @ n @ ''/index.html'') = [b, ''page'', n, ''index.html'']"
    by (simp only: 1 2 split_sep_page split_sep_index)
  show "''..'' \<notin> set [b, ''page'', n, ''index.html'']"
    using assms by (auto simp: safe_component_def)
qed

lemma save_templates:
  assumes "(ut, st) \<in> set routing_pairs"
  shows "st = ''{slug}/index.html'' \<or> st = ''tag/{slug}/index.html'' \<or> st = '''' \<or>
    st = ''{base_name}/index.html'' \<or> st = ''{base_name}/page/{number}/index.html''"
  using assms unfolding routing_pairs_eval by auto

text \<open>
  C6. For every pair of a URL template and a save-path template of the configuration
  (those of the kinds and those of the pagination table), and every metadata that give
  each field of the save-path template a value whose text is not empty, has no separator
  and is not \<^verbatim>\<open>..\<close>, the save-path template is substituted without error and the path is
  relative and does not leave the output root.
\<close>

theorem save_paths_are_relative:
  assumes "(ut, st) \<in> set routing_pairs"
    and "\<forall>n \<in> set (field_names st).
           \<exists>v r. ctx n = Some v \<and> py_str v = Some r \<and> safe_component r"
  shows "\<exists>p. format st ctx = Inr p \<and> valid_relative_path p"
proof -
  from save_templates [OF assms(1)] show ?thesis
  proof (elim disjE)
    assume slug: "st = ''{slug}/index.html''"
    from assms(2) obtain v r
      where *: "ctx ''slug'' = Some v" "py_str v = Some r" "safe_component r"
      unfolding slug field_names_slug by auto
    have "format ''{slug}/index.html'' ctx = Inr (r @ ''/index.html'')"
      by (rule format_eval(2) [of ctx v r, OF *(1,2)])
    moreover have "valid_relative_path (r @ ''/index.html'')"
      using *(3) by (rule valid_slug_index)
    ultimately show ?thesis
      unfolding slug by blast
  next
    assume tag: "st = ''tag/{slug}/index.html''"
    from assms(2) obtain v r
      where *: "ctx ''slug'' = Some v" "py_str v = Some r" "safe_component r"
      unfolding tag field_names_slug by auto
    have "format ''tag/{slug}/index.html'' ctx = Inr (''tag/'' @ r @ ''/index.html'')"
      by (rule format_eval(4) [of ctx v r, OF *(1,2)])
    moreover have "valid_relative_path (''tag/'' @ r @ ''/index.html'')"
      using *(3) by (rule valid_tag_index)
    ultimately show ?thesis
      unfolding tag by blast
  next
    assume empty: "st = ''''"
    show ?thesis
      unfolding empty using format_empty [of ctx] valid_empty by blast
  next
    assume page1: "st = ''{base_name}/index.html''"
    from assms(2) obtain v r
      where *: "ctx ''base_name'' = Some v" "py_str v = Some r" "safe_component r"
      unfolding page1 field_names_pagination by auto
    have "format ''{base_name}/index.html'' ctx = Inr (r @ ''/index.html'')"
      by (rule format_page_one(2) [of ctx v r, OF *(1,2)])
    moreover have "valid_relative_path (r @ ''/index.html'')"
      using *(3) by (rule valid_slug_index)
    ultimately show ?thesis
      unfolding page1 by blast
  next
    assume pagen: "st = ''{base_name}/page/{number}/index.html''"
    from assms(2) obtain v b
      where b: "ctx ''base_name'' = Some v" "py_str v = Some b" "safe_component b"
      unfolding pagen field_names_pagination by auto
    from assms(2) obtain w n
      where n: "ctx ''number'' = Some w" "py_str w = Some n" "safe_component n"
      unfolding pagen field_names_pagination by auto
    have "format ''{base_name}/page/{number}/index.html'' ctx
        = Inr (b @ ''/page/'' @ n @ ''/index.html'')"
      by (rule format_page_n(2) [of ctx v b w n, OF b(1,2) n(1,2)])
    moreover have "valid_relative_path (b @ ''/page/'' @ n @ ''/index.html'')"
      using b(3) n(3) by (rule valid_page_index)
    ultimately show ?thesis
      unfolding pagen by blast
  qed
qed

theorem save_paths_are_relative_witness:
  "(''tag/{slug}/'', ''tag/{slug}/index.html'') \<in> set routing_pairs \<and>
   field_names ''tag/{slug}/index.html'' = [''slug''] \<and>
   safe_component ''python'' \<and>
   format ''tag/{slug}/index.html'' [''slug'' \<mapsto> PStr ''python'']
     = Inr ''tag/python/index.html'' \<and>
   valid_relative_path ''tag/python/index.html''"
proof -
  let ?ctx = "[''slug'' \<mapsto> PStr ''python'']"
  have m: "(''tag/{slug}/'', ''tag/{slug}/index.html'') \<in> set routing_pairs"
    by (simp add: routing_pairs_eval)
  have s: "safe_component ''python''"
    by (simp add: safe_component_def)
  have h: "\<forall>n \<in> set (field_names ''tag/{slug}/index.html'').
      \<exists>v r. ?ctx n = Some v \<and> py_str v = Some r \<and> safe_component r"
    using s by (simp add: field_names_slug)
  have f: "format ''tag/{slug}/index.html'' ?ctx = Inr ''tag/python/index.html''"
    by (simp add: format_def)
  from save_paths_are_relative [of "''tag/{slug}/''" "''tag/{slug}/index.html''" ?ctx, OF m h]
  have "valid_relative_path ''tag/python/index.html''"
    unfolding f by simp
  with m s f show ?thesis
    by (simp add: field_names_slug)
qed

text \<open>
  The two save-path templates that have no URL template beside them, those of the archive
  index and of the tag index, have no field and give a relative path under the root too.
\<close>

lemma unpaired_save_paths_are_relative:
  "format ARCHIVES_SAVE_AS ctx = Inr ''archives/index.html''"
  "valid_relative_path ''archives/index.html''"
  "format TAGS_SAVE_AS ctx = Inr ''''"
  by (simp_all add: ARCHIVES_SAVE_AS_def TAGS_SAVE_AS_def format_def valid_relative_path_def
      isabs_def)

end
